theory Spec2Isabelle
  imports Main
begin

section \<open>JavaScript values and objects\<close>

text \<open>
  The settings payloads are plain JSON objects. A value is one of the JavaScript
  primitives or an object given by the list of its own properties (keys distinct, in
  insertion order). Numbers are carried as integers: no operation of the settings
  adapter computes with them, and the pagination client only adds one to a page number.
\<close>

datatype jsval =
    JUndefined
  | JNull
  | JBool bool
  | JNum int
  | JStr string
  | JObj "(string \<times> jsval) list"

type_synonym obj = "(string \<times> jsval) list"

text \<open>Property access \<open>o.k\<close>: the value stored under \<open>k\<close>, \<open>undefined\<close> when there is none.\<close>

definition getprop :: "obj \<Rightarrow> string \<Rightarrow> jsval" where
  "getprop ob k = (case map_of ob k of None \<Rightarrow> JUndefined | Some v \<Rightarrow> v)"

text \<open>JavaScript truthiness, as used by \<open>if (x)\<close>, \<open>x ? a : b\<close> and \<open>some((v) => v)\<close>.\<close>

fun truthy :: "jsval \<Rightarrow> bool" where
  "truthy JUndefined = False"
| "truthy JNull = False"
| "truthy (JBool b) = b"
| "truthy (JNum n) = (n \<noteq> 0)"
| "truthy (JStr s) = (s \<noteq> [])"
| "truthy (JObj kvs) = True"

text \<open>
  \<open>Object.values(x)\<close> for a value that is neither \<open>undefined\<close> nor \<open>null\<close>: the property
  values of an object, the characters of a string, nothing for a number or a boolean.
\<close>

fun object_values :: "jsval \<Rightarrow> jsval list" where
  "object_values (JObj kvs) = map snd kvs"
| "object_values (JStr s) = map (\<lambda>c. JStr [c]) s"
| "object_values v = []"

section \<open>The settings types (types/settings.ts)\<close>

text \<open>
  A TypeScript object type is the list of its declared fields with their value types, in
  declaration order.
\<close>

datatype ty =
    TString
  | TBoolean
  | TNumber
  | TNullable ty
  | TRecordString

type_synonym object_type = "(string \<times> ty) list"

definition Settings :: object_type where
  "Settings =
    [(''LLM_MODEL'', TString),
     (''LLM_BASE_URL'', TString),
     (''AGENT'', TString),
     (''LANGUAGE'', TString),
     (''LLM_API_KEY'', TNullable TString),
     (''CONFIRMATION_MODE'', TBoolean),
     (''SECURITY_ANALYZER'', TString),
     (''REMOTE_RUNTIME_RESOURCE_FACTOR'', TNullable TNumber),
     (''GITHUB_TOKEN_IS_SET'', TBoolean),
     (''ENABLE_DEFAULT_CONDENSER'', TBoolean),
     (''ENABLE_SOUND_NOTIFICATIONS'', TBoolean),
     (''USER_CONSENTS_TO_ANALYTICS'', TNullable TBoolean),
     (''PROVIDER_TOKENS'', TRecordString)]"

definition ApiSettings :: object_type where
  "ApiSettings =
    [(''llm_model'', TString),
     (''llm_base_url'', TString),
     (''agent'', TString),
     (''language'', TString),
     (''llm_api_key'', TNullable TString),
     (''confirmation_mode'', TBoolean),
     (''security_analyzer'', TString),
     (''remote_runtime_resource_factor'', TNullable TNumber),
     (''github_token_is_set'', TBoolean),
     (''enable_default_condenser'', TBoolean),
     (''enable_sound_notifications'', TBoolean),
     (''user_consents_to_analytics'', TNullable TBoolean),
     (''provider_tokens'', TRecordString)]"

text \<open>A value inhabits a type; \<open>TRecordString\<close> is \<open>Record<string, string>\<close>.\<close>

fun has_type :: "ty \<Rightarrow> jsval \<Rightarrow> bool" where
  "has_type TString v = (case v of JStr s \<Rightarrow> True | _ \<Rightarrow> False)"
| "has_type TBoolean v = (case v of JBool b \<Rightarrow> True | _ \<Rightarrow> False)"
| "has_type TNumber v = (case v of JNum n \<Rightarrow> True | _ \<Rightarrow> False)"
| "has_type (TNullable t) v = (v = JNull \<or> has_type t v)"
| "has_type TRecordString v =
     (case v of JObj kvs \<Rightarrow> list_all (\<lambda>kv. has_type TString (snd kv)) kvs | _ \<Rightarrow> False)"

text \<open>An object conforms to an object type when every declared field holds a value of its type.\<close>

definition conforms :: "object_type \<Rightarrow> obj \<Rightarrow> bool" where
  "conforms T ob = list_all (\<lambda>ft. has_type (snd ft) (getprop ob (fst ft))) T"

text \<open>
  The naming convention that separates the two shapes: the client name of a wire field is
  the wire name in upper case.
\<close>

definition upper_char :: "char \<Rightarrow> char" where
  "upper_char c =
     (case map_of (zip ''abcdefghijklmnopqrstuvwxyz'' ''ABCDEFGHIJKLMNOPQRSTUVWXYZ'') c of
        None \<Rightarrow> c
      | Some u \<Rightarrow> u)"

definition client_name :: "string \<Rightarrow> string" where
  "client_name k = map upper_char k"

section \<open>The settings query adapter (hooks/query/use-settings.ts)\<close>

text \<open>A failed request carries the HTTP status of the response, when there was one.\<close>

record http_error =
  status :: "int option"

text \<open>
  \<open>getSettingsQueryFn\<close> awaits the remote read (its outcome is the argument: a rejection
  propagates) and builds the object literal of the source, key by key.
\<close>

definition getSettingsQueryFn :: "http_error + obj \<Rightarrow> http_error + obj" where
  "getSettingsQueryFn getSettings =
     (case getSettings of
        Inl e \<Rightarrow> Inl e
      | Inr apiSettings \<Rightarrow>
          Inr [(''LLM_MODEL'', getprop apiSettings ''llm_model''),
               (''LLM_BASE_URL'', getprop apiSettings ''llm_base_url''),
               (''AGENT'', getprop apiSettings ''agent''),
               (''LANGUAGE'', getprop apiSettings ''language''),
               (''CONFIRMATION_MODE'', getprop apiSettings ''confirmation_mode''),
               (''SECURITY_ANALYZER'', getprop apiSettings ''security_analyzer''),
               (''LLM_API_KEY'', getprop apiSettings ''llm_api_key''),
               (''REMOTE_RUNTIME_RESOURCE_FACTOR'',
                  getprop apiSettings ''remote_runtime_resource_factor''),
               (''PROVIDER_TOKENS_SET'', getprop apiSettings ''provider_tokens_set''),
               (''ENABLE_DEFAULT_CONDENSER'', getprop apiSettings ''enable_default_condenser''),
               (''ENABLE_SOUND_NOTIFICATIONS'',
                  getprop apiSettings ''enable_sound_notifications''),
               (''USER_CONSENTS_TO_ANALYTICS'',
                  getprop apiSettings ''user_consents_to_analytics'')])"

text \<open>The adapter's mapping read off the literal: client key, wire field.\<close>

definition adapter_mapping :: "(string \<times> string) list" where
  "adapter_mapping =
    [(''LLM_MODEL'', ''llm_model''),
     (''LLM_BASE_URL'', ''llm_base_url''),
     (''AGENT'', ''agent''),
     (''LANGUAGE'', ''language''),
     (''CONFIRMATION_MODE'', ''confirmation_mode''),
     (''SECURITY_ANALYZER'', ''security_analyzer''),
     (''LLM_API_KEY'', ''llm_api_key''),
     (''REMOTE_RUNTIME_RESOURCE_FACTOR'', ''remote_runtime_resource_factor''),
     (''PROVIDER_TOKENS_SET'', ''provider_tokens_set''),
     (''ENABLE_DEFAULT_CONDENSER'', ''enable_default_condenser''),
     (''ENABLE_SOUND_NOTIFICATIONS'', ''enable_sound_notifications''),
     (''USER_CONSENTS_TO_ANALYTICS'', ''user_consents_to_analytics'')]"

text \<open>
  A result is a straight rename of a payload over a list of wire fields when each of them
  is an own property of the result under its client name, with the payload's value.
\<close>

definition renamed :: "string list \<Rightarrow> obj \<Rightarrow> obj \<Rightarrow> bool" where
  "renamed ks payload result =
     list_all (\<lambda>k. map_of result (client_name k) = Some (getprop payload k)) ks"

text \<open>A complete wire payload, used in the examples below.\<close>

definition sample_payload :: obj where
  "sample_payload =
    [(''llm_model'', JStr ''gpt-4''),
     (''llm_base_url'', JStr ''''),
     (''agent'', JStr ''CodeActAgent''),
     (''language'', JStr ''en''),
     (''llm_api_key'', JStr ''sk-1''),
     (''confirmation_mode'', JBool False),
     (''security_analyzer'', JStr ''''),
     (''remote_runtime_resource_factor'', JNum 1),
     (''github_token_is_set'', JBool True),
     (''enable_default_condenser'', JBool True),
     (''enable_sound_notifications'', JBool False),
     (''user_consents_to_analytics'', JNull),
     (''provider_tokens'', JObj [(''github'', JStr ''ghp_1'')]),
     (''provider_tokens_set'', JObj [(''github'', JBool True), (''gitlab'', JBool False)])]"

text \<open>
  Whether a payload is carried over a list of wire fields by the adapter: the read
  succeeded and the result is a straight rename over those fields.
\<close>

definition straight_rename :: "string list \<Rightarrow> obj \<Rightarrow> bool" where
  "straight_rename ks payload =
     (case getSettingsQueryFn (Inr payload) of
        Inl e \<Rightarrow> False
      | Inr result \<Rightarrow> renamed ks payload result)"

subsection \<open>The hook\<close>

text \<open>
  What \<open>useQuery\<close> hands to the hook: the fields the hook reads. \<open>data\<close> is \<open>undefined\<close>
  (\<open>None\<close>) until a fetch has succeeded, \<open>error\<close> is \<open>null\<close> (\<open>None\<close>) unless the fetch
  failed. Every other field of the query object lives in the record's extension, which
  the spread \<open>{...query, data: DEFAULT_SETTINGS}\<close> copies.
\<close>

record query =
  data :: "obj option"
  error :: "http_error option"
  isFetched :: bool

text \<open>
  The state the effects write: the two values of the auth context behind
  \<open>setProviderTokensSet\<close> and \<open>setProvidersAreSet\<close>, and the events captured by the
  analytics client.
\<close>

record session =
  providerTokensSet :: jsval
  providersAreSet :: bool
  captured :: "string list"

text \<open>
  The query is set up with \<open>getSettingsQueryFn\<close> as its fetch function and with the
  \<open>retry\<close> option below, which the query library calls with the failure count and the
  error to decide whether to fetch again. The cache key and the toast flag of the query
  play no part in what follows.
\<close>

definition retry :: "nat \<Rightarrow> http_error \<Rightarrow> bool" where
  "retry failureCount err = (status err \<noteq> Some 404)"

text \<open>Optional chaining \<open>query.data?.k\<close>.\<close>

definition data_prop :: "'a query_scheme \<Rightarrow> string \<Rightarrow> jsval" where
  "data_prop q k = (case query.data q of None \<Rightarrow> JUndefined | Some d \<Rightarrow> getprop d k)"

text \<open>The body of the first effect.\<close>

definition activation_effect :: "'a query_scheme \<Rightarrow> session \<Rightarrow> session" where
  "activation_effect q s =
     (if truthy (data_prop q ''LLM_API_KEY'')
      then s\<lparr>captured := captured s @ [''user_activated'']\<rparr>
      else s)"

text \<open>The body of the second effect.\<close>

definition provider_tokens_effect :: "'a query_scheme \<Rightarrow> session \<Rightarrow> session" where
  "provider_tokens_effect q s =
     (if truthy (data_prop q ''PROVIDER_TOKENS_SET'')
      then
        (let s1 = s\<lparr>providerTokensSet := data_prop q ''PROVIDER_TOKENS_SET''\<rparr>;
             atLeastOneSet = list_ex truthy (object_values (data_prop q ''PROVIDER_TOKENS_SET''))
         in s1\<lparr>providersAreSet := atLeastOneSet\<rparr>)
      else s)"

text \<open>
  One render of the hook. React runs an effect after the first render and after each
  render in which one of its dependencies is not the value of the previous render;
  whether it runs the first and the second effect in this render are the arguments
  \<open>run1\<close> and \<open>run2\<close>. \<open>DEFAULT_SETTINGS\<close> is the constant imported from
  \<open>services/settings\<close>. The render returns what the caller receives and the state the
  effects leave.
\<close>

definition useSettings ::
  "obj \<Rightarrow> bool \<Rightarrow> bool \<Rightarrow> 'a query_scheme \<Rightarrow> session \<Rightarrow> 'a query_scheme \<times> session" where
  "useSettings DEFAULT_SETTINGS run1 run2 q s =
     (let s1 = (if run1 then activation_effect q s else s);
          s2 = (if run2 then provider_tokens_effect q s1 else s1)
      in if (case query.error q of None \<Rightarrow> False | Some e \<Rightarrow> status e = Some 404)
         then (q\<lparr>query.data := Some DEFAULT_SETTINGS\<rparr>, s2)
         else (q, s2))"

text \<open>Values used in the examples below.\<close>

definition sample_defaults :: obj where
  "sample_defaults =
    [(''LLM_MODEL'', JStr ''default-model''),
     (''LLM_BASE_URL'', JStr ''''),
     (''AGENT'', JStr ''CodeActAgent''),
     (''LANGUAGE'', JStr ''en''),
     (''LLM_API_KEY'', JNull),
     (''CONFIRMATION_MODE'', JBool False),
     (''SECURITY_ANALYZER'', JStr ''''),
     (''REMOTE_RUNTIME_RESOURCE_FACTOR'', JNum 1),
     (''GITHUB_TOKEN_IS_SET'', JBool False),
     (''ENABLE_DEFAULT_CONDENSER'', JBool True),
     (''ENABLE_SOUND_NOTIFICATIONS'', JBool False),
     (''USER_CONSENTS_TO_ANALYTICS'', JBool False),
     (''PROVIDER_TOKENS'', JObj [])]"

definition sample_session :: session where
  "sample_session = \<lparr>providerTokensSet = JObj [], providersAreSet = False, captured = []\<rparr>"

definition failed_query :: "int \<Rightarrow> query" where
  "failed_query st =
     \<lparr>query.data = None, query.error = Some \<lparr>status = Some st\<rparr>, isFetched = True\<rparr>"

definition fetched_query :: "obj \<Rightarrow> query" where
  "fetched_query d = \<lparr>query.data = Some d, query.error = None, isFetched = True\<rparr>"

text \<open>
  The fetch loop of the query library for a \<open>retry\<close> option that is a function. A fetch
  calls the query function; when it succeeds the query settles with the data. When it
  fails the library calls \<open>retry\<close> with the number of failures so far and the error: on
  \<open>false\<close> the query settles with that error, on \<open>true\<close> it counts the failure and
  fetches again. Until it settles the query is pending, with neither data nor error.
  \<open>getSettings k\<close> is the outcome of the remote read of the fetch that follows \<open>k\<close>
  failures, and the last argument is the number of fetches that have completed when the
  hook renders.
\<close>

definition pending_query :: query where
  "pending_query = \<lparr>query.data = None, query.error = None, isFetched = False\<rparr>"

fun settings_query :: "(nat \<Rightarrow> http_error + obj) \<Rightarrow> nat \<Rightarrow> nat \<Rightarrow> query" where
  "settings_query getSettings failureCount 0 = pending_query"
| "settings_query getSettings failureCount (Suc n) =
     (case getSettingsQueryFn (getSettings failureCount) of
        Inr d \<Rightarrow> fetched_query d
      | Inl e \<Rightarrow>
          if retry failureCount e
          then settings_query getSettings (Suc failureCount) n
          else \<lparr>query.data = None, query.error = Some e, isFetched = True\<rparr>)"

text \<open>A remote read that fails every time with the same status.\<close>

definition always_failing :: "int \<Rightarrow> nat \<Rightarrow> http_error + obj" where
  "always_failing st k = Inl \<lparr>status = Some st\<rparr>"

section \<open>The repository pagination client (api/github.ts)\<close>

text \<open>
  A repository record is opaque but for its optional \<open>link_header\<close> (\<open>None\<close> when the
  field is absent or \<open>null\<close>); the rest is the record's extension.
\<close>

record GitHubRepository =
  link_header :: "string option"

text \<open>
  A GET request of the client: the path and the query parameters. An \<open>installation_id\<close>
  of \<open>None\<close> is the JavaScript \<open>undefined\<close>.
\<close>

record request =
  url :: string
  sort_param :: string
  page :: int
  per_page :: int
  installation_id :: "int option"

record pagination =
  total_count :: int
  has_more :: bool
  provider_cursors :: "(string \<times> string) list option"

record 'r user_response =
  repositories :: "'r list"
  pagination :: pagination

record 'r page_result =
  data :: "'r list"
  nextPage :: "int option"

record 'r app_result = "'r page_result" +
  installationIndex :: "int option"

record 'r user_result = "'r page_result" +
  totalCount :: int
  providerCursors :: "(string \<times> string) list option"

text \<open>Array indexing \<open>xs[i]\<close>: \<open>undefined\<close> outside the array.\<close>

definition index :: "'a list \<Rightarrow> int \<Rightarrow> 'a option" where
  "index xs i = (if 0 \<le> i \<and> i < int (length xs) then Some (xs ! nat i) else None)"

text \<open>Truthiness of a \<open>string | undefined\<close> and of a \<open>number | null\<close>.\<close>

definition truthy_string :: "string option \<Rightarrow> bool" where
  "truthy_string s = (case s of None \<Rightarrow> False | Some l \<Rightarrow> l \<noteq> [])"

definition truthy_number :: "int option \<Rightarrow> bool" where
  "truthy_number n = (case n of None \<Rightarrow> False | Some p \<Rightarrow> p \<noteq> 0)"

text \<open>
  \<open>retrieveGitHubAppRepositories\<close>. The arguments \<open>get\<close> and \<open>extractNextPageFromLink\<close>
  are the HTTP client and the link parser the module imports; \<open>page_arg\<close> and
  \<open>per_page_arg\<close> are \<open>None\<close> when the caller leaves them out. The result pairs the
  requests issued with the outcome of the call; a rejected request propagates.
\<close>

definition retrieveGitHubAppRepositories ::
  "(request \<Rightarrow> http_error + 'a GitHubRepository_scheme list) \<Rightarrow> (string \<Rightarrow> int option) \<Rightarrow>
   int \<Rightarrow> int list \<Rightarrow> int option \<Rightarrow> int option \<Rightarrow>
   request list \<times> (http_error + 'a GitHubRepository_scheme app_result)" where
  "retrieveGitHubAppRepositories get extractNextPageFromLink
       installationIdx installations page_arg per_page_arg =
     (let pg = (case page_arg of None \<Rightarrow> 1 | Some p \<Rightarrow> p);
          pp = (case per_page_arg of None \<Rightarrow> 30 | Some n \<Rightarrow> n);
          installationId = index installations installationIdx;
          req = \<lparr>url = ''/api/user/repositories'', sort_param = ''pushed'', page = pg,
                 per_page = pp, installation_id = installationId\<rparr>
      in case get req of
           Inl e \<Rightarrow> ([req], Inl e)
         | Inr response_data \<Rightarrow>
             (let link = (if length response_data > 0
                              \<and> truthy_string (link_header (response_data ! 0))
                          then the (link_header (response_data ! 0))
                          else '''');
                  nextPg = extractNextPageFromLink link;
                  nextInstallation =
                    (if truthy_number nextPg then Some installationIdx
                     else if installationIdx + 1 < int (length installations)
                     then Some (installationIdx + 1)
                     else None)
              in ([req], Inr \<lparr>page_result.data = response_data, nextPage = nextPg,
                              installationIndex = nextInstallation\<rparr>)))"

text \<open>\<open>retrieveGitHubUserRepositories\<close>, with the same conventions.\<close>

definition retrieveGitHubUserRepositories ::
  "(request \<Rightarrow> http_error + 'r user_response) \<Rightarrow> (string \<Rightarrow> int option) \<Rightarrow>
   int option \<Rightarrow> int option \<Rightarrow> request list \<times> (http_error + 'r user_result)" where
  "retrieveGitHubUserRepositories get extractNextPageFromLink page_arg per_page_arg =
     (let pg = (case page_arg of None \<Rightarrow> 1 | Some p \<Rightarrow> p);
          pp = (case per_page_arg of None \<Rightarrow> 30 | Some n \<Rightarrow> n);
          req = \<lparr>url = ''/api/user/repositories'', sort_param = ''pushed'', page = pg,
                 per_page = pp, installation_id = None\<rparr>
      in case get req of
           Inl e \<Rightarrow> ([req], Inl e)
         | Inr response_data \<Rightarrow>
             (let hasMore = has_more (pagination response_data);
                  githubCursor =
                    (case provider_cursors (pagination response_data) of
                       None \<Rightarrow> None
                     | Some cursors \<Rightarrow> map_of cursors ''github'');
                  nextPg =
                    (if truthy_string githubCursor
                     then extractNextPageFromLink (the githubCursor)
                     else if hasMore then Some (pg + 1) else None)
              in ([req], Inr \<lparr>page_result.data = repositories response_data, nextPage = nextPg,
                              totalCount = total_count (pagination response_data),
                              providerCursors =
                                provider_cursors (pagination response_data)\<rparr>)))"

text \<open>A link parser and servers used in the examples below.\<close>

definition sample_extract :: "string \<Rightarrow> int option" where
  "sample_extract l =
     (if l = ''<https://api.github.com/user/repos?page=0>; rel=next'' then Some 0
      else if l = ''<https://api.github.com/user/repos?page=2>; rel=next'' then Some 2
      else if l = ''<https://api.github.com/user/repos?page=5>; rel=next'' then Some 5
      else None)"

definition app_server :: "string option \<Rightarrow> request \<Rightarrow> http_error + GitHubRepository list" where
  "app_server l req = Inr [\<lparr>link_header = l\<rparr>, \<lparr>link_header = None\<rparr>]"

definition user_server ::
  "bool \<Rightarrow> (string \<times> string) list option \<Rightarrow> request \<Rightarrow>
   http_error + GitHubRepository user_response" where
  "user_server hm cursors req =
     Inr \<lparr>repositories = [\<lparr>link_header = None\<rparr>],
          pagination = \<lparr>total_count = 50, has_more = hm, provider_cursors = cursors\<rparr>\<rparr>"

section \<open>Notions used to state the properties\<close>

text \<open>
  The link-header token of a result list: the \<open>link_header\<close> of the first record, the
  empty string when the list is empty or the field is absent.
\<close>

definition link_token :: "'a GitHubRepository_scheme list \<Rightarrow> string" where
  "link_token rs =
     (case rs of
        [] \<Rightarrow> ''''
      | r # rest \<Rightarrow> (case link_header r of None \<Rightarrow> '''' | Some l \<Rightarrow> l))"

text \<open>An index is within the bounds of an array.\<close>

definition within_bounds :: "int \<Rightarrow> 'a list \<Rightarrow> bool" where
  "within_bounds j xs = (0 \<le> j \<and> j < int (length xs))"

text \<open>The github cursor of a pagination block, when there is one.\<close>

definition github_cursor :: "pagination \<Rightarrow> string option" where
  "github_cursor pgn =
     (case provider_cursors pgn of None \<Rightarrow> None | Some cursors \<Rightarrow> map_of cursors ''github'')"

section \<open>Auxiliary facts\<close>

lemma link_token_source:
  "(if length rs > 0 \<and> truthy_string (link_header (rs ! 0))
    then the (link_header (rs ! 0)) else '''') = link_token rs"
  by (cases rs) (simp_all add: link_token_def truthy_string_def split: option.splits)

lemma retrieveGitHubAppRepositories_response:
  "get \<lparr>url = ''/api/user/repositories'', sort_param = ''pushed'',
         page = (case pg of None \<Rightarrow> 1 | Some p \<Rightarrow> p),
         per_page = (case pp of None \<Rightarrow> 30 | Some n \<Rightarrow> n),
         installation_id = index insts i\<rparr> = Inr rs \<Longrightarrow>
   snd (retrieveGitHubAppRepositories get ext i insts pg pp)
     = Inr \<lparr>page_result.data = rs, nextPage = ext (link_token rs),
            installationIndex =
              (if truthy_number (ext (link_token rs)) then Some i
               else if i + 1 < int (length insts) then Some (i + 1)
               else None)\<rparr>"
  unfolding retrieveGitHubAppRepositories_def link_token_source
  by (simp add: Let_def)

lemma retrieveGitHubAppRepositories_rejected:
  "get \<lparr>url = ''/api/user/repositories'', sort_param = ''pushed'',
         page = (case pg of None \<Rightarrow> 1 | Some p \<Rightarrow> p),
         per_page = (case pp of None \<Rightarrow> 30 | Some n \<Rightarrow> n),
         installation_id = index insts i\<rparr> = Inl e \<Longrightarrow>
   snd (retrieveGitHubAppRepositories get ext i insts pg pp) = Inl e"
  by (simp add: retrieveGitHubAppRepositories_def Let_def)

lemma retrieveGitHubAppRepositories_requests:
  "fst (retrieveGitHubAppRepositories get ext i insts pg pp)
     = [\<lparr>url = ''/api/user/repositories'', sort_param = ''pushed'',
         page = (case pg of None \<Rightarrow> 1 | Some p \<Rightarrow> p),
         per_page = (case pp of None \<Rightarrow> 30 | Some n \<Rightarrow> n),
         installation_id = index insts i\<rparr>]"
  by (simp add: retrieveGitHubAppRepositories_def Let_def split: sum.splits)

lemma client_name_simps:
  "client_name [] = []"
  "client_name (c # cs) = upper_char c # client_name cs"
  by (simp_all add: client_name_def)

lemma adapter_mapping_literal:
  "getSettingsQueryFn (Inr p) = Inr (map (\<lambda>cw. (fst cw, getprop p (snd cw))) adapter_mapping)"
  by (simp add: getSettingsQueryFn_def adapter_mapping_def)

lemma effects_keep_query:
  "fst (useSettings D r1 r2 q s) =
     (if (case query.error q of None \<Rightarrow> False | Some e \<Rightarrow> status e = Some 404)
      then q\<lparr>query.data := Some D\<rparr> else q)"
  by (simp add: useSettings_def Let_def)

lemma effects_state:
  "snd (useSettings D r1 r2 q s) =
     (let s1 = (if r1 then activation_effect q s else s)
      in if r2 then provider_tokens_effect q s1 else s1)"
  by (simp add: useSettings_def Let_def)

lemma provider_tokens_effect_captured:
  "captured (provider_tokens_effect q s) = captured s"
  by (simp add: provider_tokens_effect_def Let_def)

lemma settings_query_retries:
  "(\<forall>k. fc \<le> k \<and> k < fc + n \<longrightarrow> (\<exists>e. getSettings k = Inl e \<and> status e \<noteq> Some 404)) \<Longrightarrow>
   settings_query getSettings fc n = pending_query"
proof (induction n arbitrary: fc)
  case 0
  show ?case by simp
next
  case (Suc n)
  from Suc.prems obtain e where e: "getSettings fc = Inl e" "status e \<noteq> Some 404"
    by fastforce
  have "\<forall>k. Suc fc \<le> k \<and> k < Suc fc + n \<longrightarrow>
          (\<exists>e. getSettings k = Inl e \<and> status e \<noteq> Some 404)"
    using Suc.prems by simp
  then have "settings_query getSettings (Suc fc) n = pending_query"
    by (rule Suc.IH)
  with e show ?case
    by (simp add: getSettingsQueryFn_def retry_def)
qed

lemma settings_query_not_found:
  "getSettings 0 = Inl e \<Longrightarrow> status e = Some 404 \<Longrightarrow>
   settings_query getSettings 0 (Suc n)
     = \<lparr>query.data = None, query.error = Some e, isFetched = True\<rparr>"
  by (simp add: getSettingsQueryFn_def retry_def)

section \<open>The settings adapter is a rename of the fields it maps\<close>

text \<open>
  C1, as the code has it: for every payload the adapter returns an object with exactly
  the twelve keys of its literal; each wire field the literal reads (eleven fields of
  ApiSettings and \<open>provider_tokens_set\<close>) appears under its upper-case name with the
  payload's value unchanged. The ApiSettings fields \<open>github_token_is_set\<close> and
  \<open>provider_tokens\<close> are not read, and the result has no \<open>GITHUB_TOKEN_IS_SET\<close> and no
  \<open>PROVIDER_TOKENS\<close>.
\<close>

theorem getSettingsQueryFn_renames_mapped_fields:
  "\<exists>result. getSettingsQueryFn (Inr payload) = Inr result
     \<and> renamed (map snd adapter_mapping) payload result
     \<and> map fst result = map fst adapter_mapping
     \<and> filter (\<lambda>k. k \<notin> set (map snd adapter_mapping)) (map fst ApiSettings)
         = [''github_token_is_set'', ''provider_tokens'']
     \<and> map_of result ''GITHUB_TOKEN_IS_SET'' = None
     \<and> map_of result ''PROVIDER_TOKENS'' = None"
  by (simp add: getSettingsQueryFn_def renamed_def adapter_mapping_def ApiSettings_def
      client_name_simps upper_char_def)

theorem getSettingsQueryFn_renames_mapped_fields_witness:
  "\<exists>result. getSettingsQueryFn (Inr sample_payload) = Inr result
     \<and> renamed (map snd adapter_mapping) sample_payload result
     \<and> map_of result ''LLM_MODEL'' = Some (JStr ''gpt-4'')"
  using getSettingsQueryFn_renames_mapped_fields [of sample_payload]
  by (auto simp add: getSettingsQueryFn_def sample_payload_def getprop_def)

text \<open>
  C1, as stated, fails: a payload that conforms to ApiSettings and has
  \<open>github_token_is_set = true\<close> is not carried over all the fields of ApiSettings.
\<close>

theorem getSettingsQueryFn_drops_declared_fields:
  "conforms ApiSettings sample_payload
   \<and> getprop sample_payload ''github_token_is_set'' = JBool True
   \<and> \<not> straight_rename (map fst ApiSettings) sample_payload"
  by (simp add: conforms_def straight_rename_def getSettingsQueryFn_def renamed_def
      ApiSettings_def sample_payload_def getprop_def client_name_simps upper_char_def)

section \<open>The two settings shapes and the adapter's mapping\<close>

text \<open>
  C7, as the code has it: ApiSettings and Settings declare the same fields in the same
  order with the same value types, the names differing by case only and being distinct
  within each shape. The adapter's mapping pairs each client key with the wire field of
  the same name, and it is the literal of \<open>getSettingsQueryFn\<close>; it covers every declared
  field but \<open>GITHUB_TOKEN_IS_SET\<close> / \<open>github_token_is_set\<close> and \<open>PROVIDER_TOKENS\<close> /
  \<open>provider_tokens\<close>, and reads one field neither shape declares, \<open>provider_tokens_set\<close>.
\<close>

theorem settings_shapes_and_adapter_mapping:
  "map (\<lambda>ft. (client_name (fst ft), snd ft)) ApiSettings = Settings
   \<and> distinct (map fst Settings)
   \<and> distinct (map fst ApiSettings)
   \<and> list_all (\<lambda>cw. fst cw = client_name (snd cw)) adapter_mapping
   \<and> getSettingsQueryFn (Inr p)
       = Inr (map (\<lambda>cw. (fst cw, getprop p (snd cw))) adapter_mapping)
   \<and> filter (\<lambda>c. c \<notin> set (map fst adapter_mapping)) (map fst Settings)
       = [''GITHUB_TOKEN_IS_SET'', ''PROVIDER_TOKENS'']
   \<and> filter (\<lambda>w. w \<notin> set (map snd adapter_mapping)) (map fst ApiSettings)
       = [''github_token_is_set'', ''provider_tokens'']
   \<and> filter (\<lambda>w. w \<notin> set (map fst ApiSettings)) (map snd adapter_mapping)
       = [''provider_tokens_set'']"
  by (simp add: adapter_mapping_literal)
     (simp add: Settings_def ApiSettings_def adapter_mapping_def client_name_simps
      upper_char_def)

theorem settings_shapes_and_adapter_mapping_witness:
  "map (\<lambda>ft. (client_name (fst ft), snd ft)) ApiSettings = Settings
   \<and> getSettingsQueryFn (Inr sample_payload)
       = Inr (map (\<lambda>cw. (fst cw, getprop sample_payload (snd cw))) adapter_mapping)"
  using settings_shapes_and_adapter_mapping [of sample_payload] by simp

text \<open>
  C7, as stated, fails: Settings declares \<open>GITHUB_TOKEN_IS_SET\<close> and ApiSettings declares
  \<open>provider_tokens\<close>, and the adapter's mapping has neither.
\<close>

theorem adapter_mapping_misses_declared_fields:
  "''GITHUB_TOKEN_IS_SET'' \<in> set (map fst Settings)
   \<and> ''GITHUB_TOKEN_IS_SET'' \<notin> set (map fst adapter_mapping)
   \<and> ''provider_tokens'' \<in> set (map fst ApiSettings)
   \<and> ''provider_tokens'' \<notin> set (map snd adapter_mapping)"
  by (simp add: Settings_def ApiSettings_def adapter_mapping_def)

section \<open>The hook on a failed fetch\<close>

text \<open>
  C2, as the code has it: when the fetch failed with status 404 the retry predicate
  answers no, and the hook returns the query object with its data replaced by the default
  settings and every other field, the error among them, as it was. For an error of any
  other status (or of none) the retry predicate answers yes.
\<close>

theorem useSettings_not_found:
  assumes "query.error q = Some e" and "status e = Some 404"
  shows "\<not> retry n e
    \<and> fst (useSettings D r1 r2 q s) = q\<lparr>query.data := Some D\<rparr>
    \<and> query.data (fst (useSettings D r1 r2 q s)) = Some D
    \<and> query.error (fst (useSettings D r1 r2 q s)) = Some e
    \<and> (status e' \<noteq> Some 404 \<longrightarrow> retry n e')"
  using assms by (simp add: effects_keep_query retry_def)

theorem useSettings_not_found_witness:
  "\<not> retry 0 \<lparr>status = Some 404\<rparr>
   \<and> query.data (fst (useSettings sample_defaults True True (failed_query 404) sample_session))
       = Some sample_defaults
   \<and> retry 0 \<lparr>status = Some 500\<rparr>"
  using useSettings_not_found [of "failed_query 404" "\<lparr>status = Some 404\<rparr>" 0
      sample_defaults True True sample_session "\<lparr>status = Some 500\<rparr>"]
  by (simp add: failed_query_def)

text \<open>
  C2, as stated, fails in its middle part: after a 404 the object the caller receives
  still carries the error.
\<close>

theorem useSettings_not_found_keeps_error:
  "query.error (fst (useSettings sample_defaults True True (failed_query 404) sample_session))
     = Some \<lparr>status = Some 404\<rparr>"
  by (simp add: useSettings_def failed_query_def Let_def)

text \<open>
  C5, as the code has it: when the settings fetch fails with a status other than 404 (or
  with none), the retry predicate asks for another fetch. As long as every fetch fails
  so, the query stays pending, and the hook returns it as it is, with no error and no
  data: the default settings are not substituted, and no error state reaches the caller.
\<close>

theorem useSettings_other_failure_retried:
  assumes "\<forall>k<n. \<exists>e. getSettings k = Inl e \<and> status e \<noteq> Some 404"
  shows "(\<forall>k<n. \<forall>e. getSettings k = Inl e \<longrightarrow> retry k e)
    \<and> settings_query getSettings 0 n = pending_query
    \<and> fst (useSettings D r1 r2 (settings_query getSettings 0 n) s)
        = settings_query getSettings 0 n
    \<and> query.data (fst (useSettings D r1 r2 (settings_query getSettings 0 n) s)) = None
    \<and> query.error (fst (useSettings D r1 r2 (settings_query getSettings 0 n) s)) = None"
proof -
  have retried: "\<forall>k<n. \<forall>e. getSettings k = Inl e \<longrightarrow> retry k e"
    using assms by (fastforce simp add: retry_def)
  have "\<forall>k. 0 \<le> k \<and> k < 0 + n \<longrightarrow> (\<exists>e. getSettings k = Inl e \<and> status e \<noteq> Some 404)"
    using assms by simp
  then have pending: "settings_query getSettings 0 n = pending_query"
    by (rule settings_query_retries)
  have "fst (useSettings D r1 r2 pending_query s) = pending_query"
    by (simp add: effects_keep_query pending_query_def)
  with retried pending show ?thesis
    by (simp add: pending_query_def)
qed

theorem useSettings_other_failure_retried_witness:
  "retry 0 \<lparr>status = Some 503\<rparr>
   \<and> fst (useSettings sample_defaults True True
            (settings_query (always_failing 503) 0 7) sample_session)
     = pending_query"
proof -
  have fails: "\<forall>k<7. \<exists>e. always_failing 503 k = Inl e \<and> status e \<noteq> Some 404"
    by (simp add: always_failing_def)
  note r = useSettings_other_failure_retried
    [OF fails, of sample_defaults True True sample_session]
  from r have pending: "settings_query (always_failing 503) 0 7 = pending_query"
    by blast
  from r have "fst (useSettings sample_defaults True True
                  (settings_query (always_failing 503) 0 7) sample_session)
                = settings_query (always_failing 503) 0 7"
    by blast
  with pending show ?thesis
    by (simp add: retry_def)
qed

text \<open>
  C5, as stated, fails: after four fetches that failed with status 500 the hook hands the
  caller no error.
\<close>

theorem useSettings_other_failure_not_surfaced:
  "query.error (fst (useSettings sample_defaults True True
       (settings_query (always_failing 500) 0 4) sample_session)) = None
   \<and> settings_query (always_failing 500) 0 4 = pending_query"
  by (simp add: effects_keep_query always_failing_def getSettingsQueryFn_def retry_def
      pending_query_def eval_nat_numeral)

section \<open>The effects of the hook\<close>

text \<open>
  C6: when the fetched settings hold a provider-token-set map and the second effect runs,
  the session state afterwards holds that map, and its derived flag is the disjunction of
  the map's values.
\<close>

theorem provider_tokens_written:
  assumes "query.data q = Some d" and "getprop d ''PROVIDER_TOKENS_SET'' = JObj m"
  shows "providerTokensSet (snd (useSettings D r1 True q s)) = JObj m
    \<and> providersAreSet (snd (useSettings D r1 True q s)) = (\<exists>v \<in> set (map snd m). truthy v)"
  using assms
  by (simp add: effects_state provider_tokens_effect_def data_prop_def Let_def list_ex_iff)

theorem provider_tokens_written_witness:
  "providerTokensSet (snd (useSettings sample_defaults True True
       (fetched_query [(''PROVIDER_TOKENS_SET'', JObj [(''github'', JBool True)])])
       sample_session)) = JObj [(''github'', JBool True)]
   \<and> providersAreSet (snd (useSettings sample_defaults True True
       (fetched_query [(''PROVIDER_TOKENS_SET'', JObj [(''github'', JBool True)])])
       sample_session))"
  using provider_tokens_written
    [of "fetched_query [(''PROVIDER_TOKENS_SET'', JObj [(''github'', JBool True)])]"
        "[(''PROVIDER_TOKENS_SET'', JObj [(''github'', JBool True)])]"
        "[(''github'', JBool True)]" sample_defaults True sample_session]
  by (simp add: fetched_query_def getprop_def)

text \<open>
  C8: when the fetched settings hold a non-empty API key and the first effect runs, one
  \<open>user_activated\<close> event is captured; when the fetched API key is null or empty, no event
  is captured.
\<close>

theorem user_activated_signal:
  assumes "query.data q = Some d"
  shows "(getprop d ''LLM_API_KEY'' = JStr k \<and> k \<noteq> [] \<longrightarrow>
            captured (snd (useSettings D True r2 q s)) = captured s @ [''user_activated''])
    \<and> (getprop d ''LLM_API_KEY'' = JNull \<or> getprop d ''LLM_API_KEY'' = JStr [] \<longrightarrow>
            captured (snd (useSettings D r1 r2 q s)) = captured s)"
  using assms
  by (auto simp add: effects_state provider_tokens_effect_captured activation_effect_def
      data_prop_def Let_def)

theorem user_activated_signal_witness:
  "captured (snd (useSettings sample_defaults True True
       (fetched_query [(''LLM_API_KEY'', JStr ''sk-1'')]) sample_session))
     = [''user_activated'']"
  using user_activated_signal
    [of "fetched_query [(''LLM_API_KEY'', JStr ''sk-1'')]" "[(''LLM_API_KEY'', JStr ''sk-1'')]"
        "''sk-1''" sample_defaults True sample_session True]
  by (simp add: fetched_query_def getprop_def sample_session_def)

section \<open>Paging through the repositories of the app installations\<close>

text \<open>
  C3, as the code has it, for a 0-based index \<open>i\<close>: the call issues one request; when it is
  rejected the rejection propagates, and otherwise the result carries the list received,
  and its next page is what the link parser makes of the link-header token of that list.
  When the parser yields a page number other than zero the next installation index is
  \<open>i\<close>; when it yields none the next installation index is \<open>i + 1\<close> if that is within the
  bounds of the installations, and null if not.
\<close>

theorem app_repositories_advance:
  assumes "0 \<le> i"
  shows "\<exists>req. fst (retrieveGitHubAppRepositories get ext i insts pg pp) = [req]
    \<and> (case get req of
          Inl e \<Rightarrow> snd (retrieveGitHubAppRepositories get ext i insts pg pp) = Inl e
        | Inr rs \<Rightarrow>
            (\<exists>res. snd (retrieveGitHubAppRepositories get ext i insts pg pp) = Inr res
               \<and> page_result.data res = rs
               \<and> nextPage res = ext (link_token rs)
               \<and> (\<forall>p. ext (link_token rs) = Some p \<and> p \<noteq> 0 \<longrightarrow>
                      installationIndex res = Some i \<and> nextPage res = Some p)
               \<and> (ext (link_token rs) = None \<and> within_bounds (i + 1) insts \<longrightarrow>
                      installationIndex res = Some (i + 1))
               \<and> (ext (link_token rs) = None \<and> \<not> within_bounds (i + 1) insts \<longrightarrow>
                      installationIndex res = None)))"
proof (intro exI conjI)
  let ?req = "\<lparr>url = ''/api/user/repositories'', sort_param = ''pushed'',
         page = (case pg of None \<Rightarrow> 1 | Some p \<Rightarrow> p),
         per_page = (case pp of None \<Rightarrow> 30 | Some n \<Rightarrow> n),
         installation_id = index insts i\<rparr>"
  show "fst (retrieveGitHubAppRepositories get ext i insts pg pp) = [?req]"
    by (rule retrieveGitHubAppRepositories_requests)
  show "case get ?req of
          Inl e \<Rightarrow> snd (retrieveGitHubAppRepositories get ext i insts pg pp) = Inl e
        | Inr rs \<Rightarrow>
            (\<exists>res. snd (retrieveGitHubAppRepositories get ext i insts pg pp) = Inr res
               \<and> page_result.data res = rs
               \<and> nextPage res = ext (link_token rs)
               \<and> (\<forall>p. ext (link_token rs) = Some p \<and> p \<noteq> 0 \<longrightarrow>
                      installationIndex res = Some i \<and> nextPage res = Some p)
               \<and> (ext (link_token rs) = None \<and> within_bounds (i + 1) insts \<longrightarrow>
                      installationIndex res = Some (i + 1))
               \<and> (ext (link_token rs) = None \<and> \<not> within_bounds (i + 1) insts \<longrightarrow>
                      installationIndex res = None))"
  proof (cases "get ?req")
    case (Inl e)
    then show ?thesis by (simp add: retrieveGitHubAppRepositories_rejected)
  next
    case (Inr rs)
    with assms show ?thesis
      by (simp add: retrieveGitHubAppRepositories_response truthy_number_def
          within_bounds_def)
  qed
qed

theorem app_repositories_advance_witness:
  "snd (retrieveGitHubAppRepositories
         (app_server (Some ''<https://api.github.com/user/repos?page=2>; rel=next''))
         sample_extract 0 [10, 20] None None)
     = Inr \<lparr>page_result.data =
              [\<lparr>link_header = Some ''<https://api.github.com/user/repos?page=2>; rel=next''\<rparr>,
               \<lparr>link_header = None\<rparr>],
            nextPage = Some 2, installationIndex = Some 0\<rparr>"
  using app_repositories_advance
    [of 0 "app_server (Some ''<https://api.github.com/user/repos?page=2>; rel=next'')"
        sample_extract "[10, 20]" None None]
  by (auto simp add: app_server_def link_token_def sample_extract_def)

text \<open>
  C3, as stated, fails when the page number extracted is zero: the next installation
  index is then not \<open>i\<close>.
\<close>

theorem app_repositories_page_zero:
  "snd (retrieveGitHubAppRepositories
         (app_server (Some ''<https://api.github.com/user/repos?page=0>; rel=next''))
         sample_extract 0 [10, 20] None None)
     = Inr \<lparr>page_result.data =
              [\<lparr>link_header = Some ''<https://api.github.com/user/repos?page=0>; rel=next''\<rparr>,
               \<lparr>link_header = None\<rparr>],
            nextPage = Some 0, installationIndex = Some 1\<rparr>"
  by (simp add: retrieveGitHubAppRepositories_def Let_def app_server_def sample_extract_def
      truthy_string_def truthy_number_def index_def)

text \<open>
  C10: the installation index is not checked against the installations. Whatever the
  index, the call issues one request, whose \<open>installation_id\<close> is the installation at the
  index, undefined when the index is out of bounds; a rejection of the request is the
  only error, and on a response the next installation index follows the one policy: the
  index itself when the next page is a number other than zero, else the index plus one
  when that is below the number of installations, else null.
\<close>

theorem app_repositories_no_bounds_check:
  "\<exists>req. fst (retrieveGitHubAppRepositories get ext i insts pg pp) = [req]
    \<and> installation_id req
        = (if within_bounds i insts then Some (insts ! nat i) else None)
    \<and> (case get req of
          Inl e \<Rightarrow> snd (retrieveGitHubAppRepositories get ext i insts pg pp) = Inl e
        | Inr rs \<Rightarrow>
            snd (retrieveGitHubAppRepositories get ext i insts pg pp)
              = Inr \<lparr>page_result.data = rs, nextPage = ext (link_token rs),
                     installationIndex =
                       (if truthy_number (ext (link_token rs)) then Some i
                        else if i + 1 < int (length insts) then Some (i + 1)
                        else None)\<rparr>)"
proof (intro exI conjI)
  let ?req = "\<lparr>url = ''/api/user/repositories'', sort_param = ''pushed'',
         page = (case pg of None \<Rightarrow> 1 | Some p \<Rightarrow> p),
         per_page = (case pp of None \<Rightarrow> 30 | Some n \<Rightarrow> n),
         installation_id = index insts i\<rparr>"
  show "fst (retrieveGitHubAppRepositories get ext i insts pg pp) = [?req]"
    by (rule retrieveGitHubAppRepositories_requests)
  show "installation_id ?req = (if within_bounds i insts then Some (insts ! nat i) else None)"
    by (simp add: index_def within_bounds_def)
  show "case get ?req of
          Inl e \<Rightarrow> snd (retrieveGitHubAppRepositories get ext i insts pg pp) = Inl e
        | Inr rs \<Rightarrow>
            snd (retrieveGitHubAppRepositories get ext i insts pg pp)
              = Inr \<lparr>page_result.data = rs, nextPage = ext (link_token rs),
                     installationIndex =
                       (if truthy_number (ext (link_token rs)) then Some i
                        else if i + 1 < int (length insts) then Some (i + 1)
                        else None)\<rparr>"
    by (cases "get ?req")
       (simp_all add: retrieveGitHubAppRepositories_rejected
          retrieveGitHubAppRepositories_response)
qed

theorem app_repositories_no_bounds_check_witness:
  "fst (retrieveGitHubAppRepositories (app_server None) sample_extract 7 [10, 20] None None)
     = [\<lparr>url = ''/api/user/repositories'', sort_param = ''pushed'', page = 1, per_page = 30,
         installation_id = None\<rparr>]
   \<and> snd (retrieveGitHubAppRepositories (app_server None) sample_extract 7 [10, 20] None None)
     = Inr \<lparr>page_result.data = [\<lparr>link_header = None\<rparr>, \<lparr>link_header = None\<rparr>],
            nextPage = None, installationIndex = None\<rparr>
   \<and> snd (retrieveGitHubAppRepositories (app_server None) sample_extract (- 5) [10, 20]
            None None)
     = Inr \<lparr>page_result.data = [\<lparr>link_header = None\<rparr>, \<lparr>link_header = None\<rparr>],
            nextPage = None, installationIndex = Some (- 4)\<rparr>"
  using app_repositories_no_bounds_check
      [of "app_server None" sample_extract 7 "[10, 20]" None None]
    app_repositories_no_bounds_check
      [of "app_server None" sample_extract "- 5" "[10, 20]" None None]
  by (simp add: retrieveGitHubAppRepositories_def Let_def app_server_def sample_extract_def
      truthy_string_def truthy_number_def index_def)

section \<open>Paging through the repositories of the user\<close>

text \<open>
  C4, as the code has it, for a call with page \<open>p\<close>: the call issues one request; when it
  is rejected the rejection propagates, and otherwise the result carries the repositories
  list, the total count and the provider cursors of the response. When the pagination
  block holds a non-empty github cursor the next page is what the link parser makes of
  it, whatever \<open>has_more\<close> is; when the cursor is absent or the empty string the next page
  is \<open>p + 1\<close> if \<open>has_more\<close> is true, and null if not.
\<close>

theorem user_repositories_next_page:
  "\<exists>req. fst (retrieveGitHubUserRepositories get ext (Some p) pp) = [req]
    \<and> (case get req of
          Inl e \<Rightarrow> snd (retrieveGitHubUserRepositories get ext (Some p) pp) = Inl e
        | Inr resp \<Rightarrow>
            (\<exists>res. snd (retrieveGitHubUserRepositories get ext (Some p) pp) = Inr res
               \<and> page_result.data res = repositories resp
               \<and> totalCount res = total_count (pagination resp)
               \<and> providerCursors res = provider_cursors (pagination resp)
               \<and> (\<forall>c. github_cursor (pagination resp) = Some c \<and> c \<noteq> [] \<longrightarrow>
                      nextPage res = ext c)
               \<and> (github_cursor (pagination resp) = None
                    \<or> github_cursor (pagination resp) = Some [] \<longrightarrow>
                      nextPage res
                        = (if has_more (pagination resp) then Some (p + 1) else None))))"
  by (auto simp add: retrieveGitHubUserRepositories_def Let_def github_cursor_def
      truthy_string_def split: sum.splits)

theorem user_repositories_next_page_witness:
  "snd (retrieveGitHubUserRepositories
         (user_server False
            (Some [(''github'', ''<https://api.github.com/user/repos?page=5>; rel=next'')]))
         sample_extract (Some 2) None)
     = Inr \<lparr>page_result.data = [\<lparr>link_header = None\<rparr>], nextPage = Some 5, totalCount = 50,
            providerCursors =
              Some [(''github'', ''<https://api.github.com/user/repos?page=5>; rel=next'')]\<rparr>"
  using user_repositories_next_page
    [of "user_server False
           (Some [(''github'', ''<https://api.github.com/user/repos?page=5>; rel=next'')])"
        sample_extract 2 None]
  by (auto simp add: user_server_def github_cursor_def sample_extract_def)

text \<open>
  C4, as stated, fails when the github cursor is the empty string: the pagination block
  contains a github cursor, the link parser makes no page of it, and the next page is
  \<open>p + 1\<close>.
\<close>

theorem user_repositories_empty_cursor:
  "github_cursor \<lparr>total_count = 50, has_more = True,
       provider_cursors = Some [(''github'', '''')]\<rparr> = Some ''''
   \<and> sample_extract '''' = None
   \<and> snd (retrieveGitHubUserRepositories (user_server True (Some [(''github'', '''')]))
         sample_extract (Some 2) None)
     = Inr \<lparr>page_result.data = [\<lparr>link_header = None\<rparr>], nextPage = Some 3, totalCount = 50,
            providerCursors = Some [(''github'', '''')]\<rparr>"
  by (simp add: retrieveGitHubUserRepositories_def Let_def user_server_def
      sample_extract_def truthy_string_def github_cursor_def)

text \<open>
  C9: for every response, a non-empty github cursor decides the next page by itself, so
  that a cursor of which the link parser makes no page gives a null next page even when
  \<open>has_more\<close> is true; an absent or empty cursor, and only such a one, leaves the next
  page to the \<open>has_more\<close> rule.
\<close>

theorem user_repositories_cursor_short_circuit:
  "\<exists>res. snd (retrieveGitHubUserRepositories (\<lambda>req. Inr resp) ext (Some p) pp) = Inr res
     \<and> (\<forall>c. github_cursor (pagination resp) = Some c \<and> c \<noteq> [] \<and> ext c = None \<longrightarrow>
            nextPage res = None)
     \<and> (\<forall>c. github_cursor (pagination resp) = Some c \<and> c \<noteq> [] \<longrightarrow> nextPage res = ext c)
     \<and> (github_cursor (pagination resp) = None \<or> github_cursor (pagination resp) = Some [] \<longrightarrow>
            nextPage res = (if has_more (pagination resp) then Some (p + 1) else None))"
  by (auto simp add: retrieveGitHubUserRepositories_def Let_def github_cursor_def
      truthy_string_def)

theorem user_repositories_cursor_short_circuit_witness:
  "snd (retrieveGitHubUserRepositories
         (\<lambda>req. Inr \<lparr>repositories = [\<lparr>link_header = None\<rparr>],
                      pagination = \<lparr>total_count = 50, has_more = True,
                                    provider_cursors = Some [(''github'', ''opaque'')]\<rparr>\<rparr>)
         sample_extract (Some 2) None)
     = Inr \<lparr>page_result.data = [\<lparr>link_header = None\<rparr>], nextPage = None, totalCount = 50,
            providerCursors = Some [(''github'', ''opaque'')]\<rparr>"
  using user_repositories_cursor_short_circuit
    [of "\<lparr>repositories = [\<lparr>link_header = None\<rparr>],
          pagination = \<lparr>total_count = 50, has_more = True,
                        provider_cursors = Some [(''github'', ''opaque'')]\<rparr>\<rparr>"
        sample_extract 2 None]
  by (simp add: retrieveGitHubUserRepositories_def Let_def sample_extract_def
      truthy_string_def github_cursor_def)

end
